theory Spec2Isabelle
  imports Complex_Main "HOL-Library.Char_ord" "HOL-Library.List_Lexorder"
begin

section \<open>Order-to-cash core of \<^verbatim>\<open>backend/routers/orders_router.py\<close>\<close>

text \<open>
  The router keeps money in Python floats and rounds them with \<^verbatim>\<open>round(x, 2)\<close>.
  The embedding reads every amount as the exact number it denotes (\<^typ>\<open>rat\<close>) and
  \<^verbatim>\<open>round(x, 2)\<close> as rounding to the nearest multiple of 1/100, a tie going to the
  even neighbour. Binary representation error is outside the model: results below are
  about exact cents, and none of their concrete inputs sits on a rounding tie.
\<close>

subsection \<open>Numbers and text\<close>

type_synonym money = rat

definition round_half_even :: "rat \<Rightarrow> int" where
  "round_half_even x =
     (let f = \<lfloor>x\<rfloor>; d = x - of_int f
      in if d < 1 / 2 then f
         else if 1 / 2 < d then f + 1
         else if even f then f else f + 1)"

text \<open>\<^verbatim>\<open>round(x, 2)\<close>\<close>

definition round2 :: "rat \<Rightarrow> money" where
  "round2 x = of_int (round_half_even (x * 100)) / 100"

text \<open>\<^verbatim>\<open>int(x)\<close> on a float truncates towards zero.\<close>

definition py_int :: "rat \<Rightarrow> int" where
  "py_int x = (if 0 \<le> x then \<lfloor>x\<rfloor> else \<lceil>x\<rceil>)"

definition digit_char :: "nat \<Rightarrow> char" where
  "digit_char d = ''0123456789'' ! d"

text \<open>\<^verbatim>\<open>str(n)\<close> for a non-negative integer.\<close>

function str_nat :: "nat \<Rightarrow> string" where
  "str_nat n = (if n < 10 then [digit_char n] else str_nat (n div 10) @ [digit_char (n mod 10)])"
  by pat_completeness auto
termination
  by (relation "measure id") auto

declare str_nat.simps [simp del]

text \<open>\<^verbatim>\<open>s.zfill(w)\<close> for a string without sign.\<close>

definition zfill :: "nat \<Rightarrow> string \<Rightarrow> string" where
  "zfill w s = replicate (w - length s) CHR ''0'' @ s"

text \<open>Truthiness of an optional string: \<^verbatim>\<open>None\<close> and \<^verbatim>\<open>""\<close> are falsy.\<close>

fun truthy :: "string option \<Rightarrow> bool" where
  "truthy None = False"
| "truthy (Some s) = (s \<noteq> [])"

text \<open>\<^verbatim>\<open>a or b\<close> on optional strings.\<close>

definition py_or :: "string option \<Rightarrow> string option \<Rightarrow> string option" where
  "py_or a b = (if truthy a then a else b)"

text \<open>How an f-string prints an optional string: \<^verbatim>\<open>None\<close> prints as \<^verbatim>\<open>None\<close>.\<close>

fun fmt :: "string option \<Rightarrow> string" where
  "fmt None = ''None''"
| "fmt (Some s) = s"

subsection \<open>Request and document types\<close>

record GlassItem =
  product_id :: string
  product_name :: string
  thickness :: rat
  width :: rat
  height :: rat
  quantity :: int
  unit_price :: money
  item_total_price :: money
  edging :: "string option"
  tempering :: bool
  lamination :: bool
  item_notes :: "string option"

text \<open>
  \<^verbatim>\<open>OrderCreate\<close>. The e-mail, company, tax-registration, address and note fields are
  copied into the stored document and read by nothing below; they are left out.
\<close>

record OrderCreate =
  req_customer_profile_id :: "string option"
  req_customer_name :: "string option"
  req_customer_phone :: "string option"
  glass_items :: "GlassItem list"
  req_advance_percent :: "int option"
  req_is_credit_customer :: bool

text \<open>
  A document of \<^verbatim>\<open>db.customer_profiles\<close>: the keys \<^verbatim>\<open>create_order\<close> reads. A key
  read with \<^verbatim>\<open>.get\<close> may be absent.
\<close>

record customer_profile =
  profile_id :: string
  profile_status :: string
  display_name :: "string option"
  mobile :: "string option"
  credit_type :: "string option"
  profile_credit_limit :: "money option"
  profile_credit_days :: "int option"

text \<open>
  A document of \<^verbatim>\<open>db.orders\<close>. The keys down to \<open>updated_at\<close> are the ones
  \<^verbatim>\<open>create_order\<close> writes; the remaining ones are added by the payment endpoints and
  are absent (\<open>None\<close>) until then.
\<close>

record order =
  order_id :: string
  order_number :: string
  customer_id :: "string option"
  customer_profile_id :: "string option"
  customer_name :: "string option"
  customer_phone :: "string option"
  order_items :: "GlassItem list"
  total_sqft :: rat
  subtotal :: money
  tax_rate :: rat
  tax_amount :: money
  total_price :: money
  advance_percent :: int
  advance_amount :: money
  remaining_amount :: money
  is_credit_customer :: bool
  credit_limit :: money
  credit_days :: int
  payment_status :: string
  razorpay_order_id :: "string option"
  status :: string
  created_at :: string
  updated_at :: string
  razorpay_payment_id :: "string option"
  advance_paid_at :: "string option"
  advance_payment_method :: "string option"
  remaining_razorpay_order_id :: "string option"
  remaining_razorpay_payment_id :: "string option"
  remaining_paid_at :: "string option"
  remaining_payment_method :: "string option"

text \<open>The \<^verbatim>\<open>advance_settings\<close> document; every key is read with a default.\<close>

record advance_settings =
  normal_customer_min :: "int option"
  normal_customer_options :: "int list option"
  credit_customer_min :: "int option"
  credit_customer_options :: "int list option"
  admin_override_allowed :: "bool option"
  max_credit_limit :: "money option"

text \<open>
  The keyword arguments of a call of \<^verbatim>\<open>auto_post_to_ledger\<close> that vary between
  calls (party type, description, date and author are fixed texts or the date).
\<close>

record ledger_post =
  entry_type :: string
  reference_id :: string
  reference_number :: string
  party_id :: "string option"
  party_name :: "string option"
  amount :: money
  gst_amount :: money

record cash_payment =
  cash_id :: string
  cash_order_id :: string
  cash_order_number :: string
  cash_amount :: money
  cash_payment_type :: string
  received_by :: "string option"
  received_at :: string

text \<open>
  The database handle. \<open>ledger\<close> is the sequence of posting requests handed to the
  ledger collaborator, oldest first.
\<close>

record db =
  orders :: "order list"
  customer_profiles :: "customer_profile list"
  settings :: "advance_settings option"
  cash_payments :: "cash_payment list"
  ledger :: "ledger_post list"

text \<open>The authenticated caller, as \<^verbatim>\<open>get_current_user\<close> returns it.\<close>

record current_user =
  user_id :: "string option"
  role :: "string option"
  user_name :: "string option"

text \<open>
  What the module reads from outside the database: the gateway key material and client,
  the digest primitive \<^verbatim>\<open>hmac.new(key, msg, hashlib.sha256).hexdigest()\<close> of the
  standard library, the gateway's order-creation call (\<open>None\<close> when it raises), the
  clock and the identifier source.
\<close>

record env =
  RAZORPAY_KEY_ID :: string
  RAZORPAY_KEY_SECRET :: string
  hmac_sha256_hexdigest :: "string \<Rightarrow> string \<Rightarrow> string"
  razorpay_order_create :: "int \<Rightarrow> string \<Rightarrow> string option"
  now_iso :: string
  today_yymmdd :: "nat \<times> nat \<times> nat"
  uuid4 :: string

text \<open>\<^verbatim>\<open>razorpay_client\<close> exists exactly when both keys are non-empty.\<close>

definition razorpay_client :: "env \<Rightarrow> bool" where
  "razorpay_client e = (RAZORPAY_KEY_ID e \<noteq> [] \<and> RAZORPAY_KEY_SECRET e \<noteq> [])"

datatype advance_reason =
    Invalid_advance_percentage int
  | Minimum_advance_required int
  | Advance_must_be_one_of "int list"

datatype detail =
    Customer_profile_not_found_or_inactive
  | Customer_name_is_required
  | Customer_phone_is_required
  | Advance_rejected "advance_reason option"
  | Order_exceeds_credit_limit money money
  | Order_not_found
  | Payment_verification_failed
  | No_remaining_amount_to_pay
  | Failed_to_create_payment
  | Admin_access_required

datatype error = HTTPException nat detail

subsection \<open>Helpers\<close>

definition strftime_yymmdd :: "nat \<times> nat \<times> nat \<Rightarrow> string" where
  "strftime_yymmdd d =
     (case d of (y, m, dd) \<Rightarrow>
        zfill 2 (str_nat (y mod 100)) @ zfill 2 (str_nat m) @ zfill 2 (str_nat dd))"

definition order_prefix :: "env \<Rightarrow> string" where
  "order_prefix e = ''LG'' @ strftime_yymmdd (today_yymmdd e)"

text \<open>The filter \<^verbatim>\<open>{"order_number": {"$regex": "^" + prefix}}\<close>.\<close>

definition matches_prefix :: "string \<Rightarrow> order \<Rightarrow> bool" where
  "matches_prefix p doc = (take (length p) (order_number doc) = p)"

definition count_documents :: "string \<Rightarrow> order list \<Rightarrow> nat" where
  "count_documents p os = length (filter (matches_prefix p) os)"

definition generate_order_number :: "env \<Rightarrow> db \<Rightarrow> string" where
  "generate_order_number e d =
     (let prefix = order_prefix e;
          count = count_documents prefix (orders d)
      in prefix @ zfill 4 (str_nat (count + 1)))"

definition default_settings :: advance_settings where
  "default_settings =
     \<lparr> normal_customer_min = Some 50,
       normal_customer_options = Some [50, 75, 100],
       credit_customer_min = Some 0,
       credit_customer_options = Some [0, 25, 50, 75, 100],
       admin_override_allowed = Some True,
       max_credit_limit = Some 100000 \<rparr>"

definition get_advance_settings :: "db \<Rightarrow> advance_settings" where
  "get_advance_settings d = (case settings d of None \<Rightarrow> default_settings | Some s \<Rightarrow> s)"

text \<open>\<^verbatim>\<open>settings.get(key, default)\<close>\<close>

definition get_or :: "'a option \<Rightarrow> 'a \<Rightarrow> 'a" where
  "get_or v dflt = (case v of None \<Rightarrow> dflt | Some x \<Rightarrow> x)"

definition validate_advance_percent ::
  "db \<Rightarrow> money \<Rightarrow> int \<Rightarrow> bool \<Rightarrow> string \<Rightarrow> bool \<times> advance_reason option" where
  "validate_advance_percent d total_amount requested_percent is_credit user_role =
     (let s = get_advance_settings d;
          min_percent = (if is_credit then get_or (credit_customer_min s) 0
                         else get_or (normal_customer_min s) 50);
          allowed_options = (if is_credit then get_or (credit_customer_options s) [0, 25, 50, 75, 100]
                             else get_or (normal_customer_options s) [50, 75, 100])
      in if user_role \<in> set [''admin'', ''super_admin'', ''owner'']
            \<and> get_or (admin_override_allowed s) True
         then (if requested_percent < 0 \<or> 100 < requested_percent
               then (False, Some (Invalid_advance_percentage requested_percent))
               else (True, None))
         else if requested_percent < min_percent
         then (False, Some (Minimum_advance_required min_percent))
         else if requested_percent \<notin> set allowed_options
         then (False, Some (Advance_must_be_one_of allowed_options))
         else (True, None))"

subsection \<open>Order creation\<close>

text \<open>
  Every endpoint takes the database and returns it together with either the
  \<^verbatim>\<open>HTTPException\<close> it raises or its response; what it wrote before raising, if
  anything, is in the database it returns.
\<close>

text \<open>\<^verbatim>\<open>db.customer_profiles.find_one({"id": pid, "status": "active"})\<close>\<close>

definition find_active_profile :: "db \<Rightarrow> string option \<Rightarrow> customer_profile option" where
  "find_active_profile d pid =
     find (\<lambda>p. Some (profile_id p) = pid \<and> profile_status p = ''active'') (customer_profiles d)"

text \<open>
  The customer data \<^verbatim>\<open>create_order\<close> works with after the optional look-up in the
  Customer Master: the profile, name, phone, credit flag, credit limit and credit days.
\<close>

record customer_data =
  cd_profile :: "customer_profile option"
  cd_name :: "string option"
  cd_phone :: "string option"
  cd_is_credit :: bool
  cd_credit_limit :: money
  cd_credit_days :: int

definition resolve_customer :: "db \<Rightarrow> OrderCreate \<Rightarrow> error + customer_data" where
  "resolve_customer d order_data =
     (if truthy (req_customer_profile_id order_data)
      then (case find_active_profile d (req_customer_profile_id order_data) of
              None \<Rightarrow> Inl (HTTPException 404 Customer_profile_not_found_or_inactive)
            | Some p \<Rightarrow>
                Inr \<lparr> cd_profile = Some p,
                      cd_name = py_or (display_name p) (req_customer_name order_data),
                      cd_phone = py_or (mobile p) (req_customer_phone order_data),
                      cd_is_credit = (credit_type p = Some ''credit_allowed''),
                      cd_credit_limit = get_or (profile_credit_limit p) 0,
                      cd_credit_days = get_or (profile_credit_days p) 0 \<rparr>)
      else Inr \<lparr> cd_profile = None,
                 cd_name = req_customer_name order_data,
                 cd_phone = req_customer_phone order_data,
                 cd_is_credit = req_is_credit_customer order_data,
                 cd_credit_limit = 0,
                 cd_credit_days = 0 \<rparr>)"

text \<open>The totals of lines 238 to 245.\<close>

definition calc_subtotal :: "GlassItem list \<Rightarrow> money" where
  "calc_subtotal items = sum_list (map item_total_price items)"

definition calc_total_sqft :: "GlassItem list \<Rightarrow> rat" where
  "calc_total_sqft items =
     sum_list (map (\<lambda>item. (width item * height item * of_int (quantity item)) / 144) items)"

definition TAX_RATE :: rat where
  "TAX_RATE = 18 / 100"

definition calc_tax_amount :: "GlassItem list \<Rightarrow> money" where
  "calc_tax_amount items = round2 (calc_subtotal items * TAX_RATE)"

definition calc_total_price :: "GlassItem list \<Rightarrow> money" where
  "calc_total_price items = round2 (calc_subtotal items + calc_tax_amount items)"

text \<open>
  The credit exposure of lines 269 to 276: the open orders of the profile, at most the
  first 1000 the query returns, and their remaining amounts added up in a loop.
\<close>

definition open_orders :: "db \<Rightarrow> string option \<Rightarrow> order list" where
  "open_orders d pid =
     filter (\<lambda>doc. customer_profile_id doc = pid \<and> payment_status doc \<noteq> ''completed'') (orders d)"

definition existing_orders :: "db \<Rightarrow> string option \<Rightarrow> order list" where
  "existing_orders d pid = take 1000 (open_orders d pid)"

definition outstanding :: "db \<Rightarrow> string option \<Rightarrow> money" where
  "outstanding d pid = foldl (\<lambda>acc doc. acc + remaining_amount doc) 0 (existing_orders d pid)"

text \<open>The document of lines 307 to 341.\<close>

definition new_order ::
  "env \<Rightarrow> db \<Rightarrow> OrderCreate \<Rightarrow> current_user \<Rightarrow> customer_data \<Rightarrow> int \<Rightarrow> order" where
  "new_order e d order_data cu c adv_percent =
     (let total = calc_total_price (glass_items order_data);
          adv = round2 (total * of_int adv_percent / 100);
          remaining = round2 (total - adv);
          number = generate_order_number e d
      in \<lparr> order_id = uuid4 e,
           order_number = number,
           customer_id = user_id cu,
           customer_profile_id = req_customer_profile_id order_data,
           customer_name = cd_name c,
           customer_phone = cd_phone c,
           order_items = glass_items order_data,
           total_sqft = round2 (calc_total_sqft (glass_items order_data)),
           subtotal = calc_subtotal (glass_items order_data),
           tax_rate = TAX_RATE,
           tax_amount = calc_tax_amount (glass_items order_data),
           total_price = total,
           advance_percent = adv_percent,
           advance_amount = adv,
           remaining_amount = remaining,
           is_credit_customer = cd_is_credit c,
           credit_limit = cd_credit_limit c,
           credit_days = cd_credit_days c,
           payment_status = ''pending'',
           razorpay_order_id =
             (if 0 < adv \<and> razorpay_client e
              then razorpay_order_create e (py_int (adv * 100)) number
              else None),
           status = ''pending'',
           created_at = now_iso e,
           updated_at = now_iso e,
           razorpay_payment_id = None,
           advance_paid_at = None,
           advance_payment_method = None,
           remaining_razorpay_order_id = None,
           remaining_razorpay_payment_id = None,
           remaining_paid_at = None,
           remaining_payment_method = None \<rparr>)"

text \<open>The \<^verbatim>\<open>sales_invoice\<close> posting of lines 347 to 360.\<close>

definition sales_invoice_post :: "OrderCreate \<Rightarrow> order \<Rightarrow> ledger_post" where
  "sales_invoice_post order_data doc =
     \<lparr> entry_type = ''sales_invoice'',
       reference_id = order_id doc,
       reference_number = order_number doc,
       party_id = py_or (req_customer_profile_id order_data) (customer_id doc),
       party_name = customer_name doc,
       amount = subtotal doc,
       gst_amount = tax_amount doc \<rparr>"

definition create_order ::
  "env \<Rightarrow> db \<Rightarrow> OrderCreate \<Rightarrow> current_user \<Rightarrow> db \<times> (error + order)" where
  "create_order e d order_data cu =
     (case resolve_customer d order_data of
        Inl err \<Rightarrow> (d, Inl err)
      | Inr c \<Rightarrow>
        if \<not> truthy (cd_name c) then (d, Inl (HTTPException 400 Customer_name_is_required))
        else if \<not> truthy (cd_phone c) then (d, Inl (HTTPException 400 Customer_phone_is_required))
        else
          let total = calc_total_price (glass_items order_data);
              adv_percent = (case req_advance_percent order_data of
                               Some p \<Rightarrow> p
                             | None \<Rightarrow> if cd_is_credit c then 0 else 50)
          in (case validate_advance_percent d total adv_percent (cd_is_credit c)
                     (get_or (role cu) ''customer'') of
                (False, reason) \<Rightarrow> (d, Inl (HTTPException 400 (Advance_rejected reason)))
              | (True, _) \<Rightarrow>
                if cd_is_credit c \<and> cd_profile c \<noteq> None
                   \<and> cd_credit_limit c < outstanding d (req_customer_profile_id order_data) + total
                then (d, Inl (HTTPException 400
                       (Order_exceeds_credit_limit
                          (outstanding d (req_customer_profile_id order_data)) (cd_credit_limit c))))
                else
                  let doc = new_order e d order_data cu c adv_percent
                  in (d\<lparr> orders := orders d @ [doc],
                         ledger := ledger d @ [sales_invoice_post order_data doc] \<rparr>,
                      Inr doc)))"

subsection \<open>Payment endpoints\<close>

text \<open>\<^verbatim>\<open>db.orders.find_one({"id": order_id})\<close>: the first document with that id.\<close>

definition find_order :: "db \<Rightarrow> string \<Rightarrow> order option" where
  "find_order d oid = find (\<lambda>doc. order_id doc = oid) (orders d)"

text \<open>\<^verbatim>\<open>db.orders.update_one({"id": order_id}, {"$set": ...})\<close>: the first match is rewritten.\<close>

fun update_one :: "string \<Rightarrow> (order \<Rightarrow> order) \<Rightarrow> order list \<Rightarrow> order list" where
  "update_one oid f [] = []"
| "update_one oid f (doc # docs) =
     (if order_id doc = oid then f doc # docs else doc # update_one oid f docs)"

text \<open>The body of a payment callback, a plain dictionary read with \<^verbatim>\<open>.get\<close>.\<close>

record payment_data =
  pd_razorpay_payment_id :: "string option"
  pd_razorpay_signature :: "string option"
  pd_razorpay_order_id :: "string option"

record RemainingPaymentVerify =
  rpv_razorpay_order_id :: string
  rpv_razorpay_payment_id :: string
  rpv_razorpay_signature :: string

definition expected_signature :: "env \<Rightarrow> string \<Rightarrow> string \<Rightarrow> string" where
  "expected_signature e gateway_order_id gateway_payment_id =
     hmac_sha256_hexdigest e (RAZORPAY_KEY_SECRET e) (gateway_order_id @ ''|'' @ gateway_payment_id)"

text \<open>\<^verbatim>\<open>"partial" if order.get("remaining_amount", 0) > 0 else "completed"\<close>\<close>

definition advance_payment_status :: "order \<Rightarrow> string" where
  "advance_payment_status doc = (if 0 < remaining_amount doc then ''partial'' else ''completed'')"

text \<open>The \<^verbatim>\<open>$set\<close> of lines 407 to 413.\<close>

definition set_advance_paid :: "env \<Rightarrow> payment_data \<Rightarrow> string \<Rightarrow> order \<Rightarrow> order" where
  "set_advance_paid e pd ps doc =
     doc\<lparr> razorpay_payment_id := pd_razorpay_payment_id pd,
          payment_status := ps,
          status := (if ps \<in> set [''partial'', ''completed''] then ''processing'' else ''pending''),
          advance_paid_at := Some (now_iso e),
          updated_at := now_iso e \<rparr>"

text \<open>
  The \<^verbatim>\<open>payment_received\<close> posting of lines 419 to 433. Its party id is
  \<^verbatim>\<open>order.get("user_id", "")\<close>, a key no order document has.
\<close>

definition advance_payment_post :: "string \<Rightarrow> order \<Rightarrow> ledger_post" where
  "advance_payment_post oid doc =
     \<lparr> entry_type = ''payment_received'',
       reference_id = oid @ ''-advance'',
       reference_number = ''RCP-'' @ order_number doc @ ''-ADV'',
       party_id = Some [],
       party_name = customer_name doc,
       amount = advance_amount doc,
       gst_amount = 0 \<rparr>"

definition verify_payment ::
  "env \<Rightarrow> db \<Rightarrow> string \<Rightarrow> payment_data \<Rightarrow> current_user \<Rightarrow> db \<times> (error + string)" where
  "verify_payment e d oid pd cu =
     (case find_order d oid of
        None \<Rightarrow> (d, Inl (HTTPException 404 Order_not_found))
      | Some doc \<Rightarrow>
        if razorpay_client e
           \<and> Some (expected_signature e (fmt (pd_razorpay_order_id pd)) (fmt (pd_razorpay_payment_id pd)))
               \<noteq> pd_razorpay_signature pd
        then (d, Inl (HTTPException 400 Payment_verification_failed))
        else
          let ps = advance_payment_status doc
          in (d\<lparr> orders := update_one oid (set_advance_paid e pd ps) (orders d),
                 ledger := ledger d @ [advance_payment_post oid doc] \<rparr>,
              Inr ps))"

definition initiate_remaining_payment ::
  "env \<Rightarrow> db \<Rightarrow> string \<Rightarrow> current_user \<Rightarrow> db \<times> (error + string option \<times> money)" where
  "initiate_remaining_payment e d oid cu =
     (case find_order d oid of
        None \<Rightarrow> (d, Inl (HTTPException 404 Order_not_found))
      | Some doc \<Rightarrow>
        let remaining = remaining_amount doc
        in if remaining \<le> 0 then (d, Inl (HTTPException 400 No_remaining_amount_to_pay))
           else if razorpay_client e
           then (case razorpay_order_create e (py_int (remaining * 100)) (order_number doc @ ''-REM'') of
                   None \<Rightarrow> (d, Inl (HTTPException 500 Failed_to_create_payment))
                 | Some rz \<Rightarrow>
                     (d\<lparr> orders := update_one oid
                            (\<lambda>x. x\<lparr> remaining_razorpay_order_id := Some rz \<rparr>) (orders d) \<rparr>,
                      Inr (Some rz, remaining)))
           else (d, Inr (None, remaining)))"

text \<open>The \<^verbatim>\<open>$set\<close> of lines 517 to 523.\<close>

definition set_remaining_paid :: "env \<Rightarrow> RemainingPaymentVerify \<Rightarrow> order \<Rightarrow> order" where
  "set_remaining_paid e pd doc =
     doc\<lparr> remaining_razorpay_payment_id := Some (rpv_razorpay_payment_id pd),
          remaining_amount := 0,
          payment_status := ''completed'',
          remaining_paid_at := Some (now_iso e),
          updated_at := now_iso e \<rparr>"

definition verify_remaining_payment ::
  "env \<Rightarrow> db \<Rightarrow> string \<Rightarrow> RemainingPaymentVerify \<Rightarrow> current_user \<Rightarrow> db \<times> (error + string)" where
  "verify_remaining_payment e d oid pd cu =
     (case find_order d oid of
        None \<Rightarrow> (d, Inl (HTTPException 404 Order_not_found))
      | Some doc \<Rightarrow>
        if razorpay_client e
           \<and> expected_signature e (rpv_razorpay_order_id pd) (rpv_razorpay_payment_id pd)
               \<noteq> rpv_razorpay_signature pd
        then (d, Inl (HTTPException 400 Payment_verification_failed))
        else (d\<lparr> orders := update_one oid (set_remaining_paid e pd) (orders d) \<rparr>,
              Inr ''completed''))"




subsection \<open>Notions the properties are stated with\<close>


text \<open>The caller is admin-tier and the settings allow the override.\<close>

definition privileged_override :: "db \<Rightarrow> string \<Rightarrow> bool" where
  "privileged_override d user_role =
     (user_role \<in> {''admin'', ''super_admin'', ''owner''}
      \<and> get_or (admin_override_allowed (get_advance_settings d)) True)"

text \<open>Minimum and allowed options of a customer class (credit or normal).\<close>

definition class_min :: "db \<Rightarrow> bool \<Rightarrow> int" where
  "class_min d is_credit =
     (if is_credit then get_or (credit_customer_min (get_advance_settings d)) 0
      else get_or (normal_customer_min (get_advance_settings d)) 50)"

definition class_options :: "db \<Rightarrow> bool \<Rightarrow> int list" where
  "class_options d is_credit =
     (if is_credit then get_or (credit_customer_options (get_advance_settings d)) [0, 25, 50, 75, 100]
      else get_or (normal_customer_options (get_advance_settings d)) [50, 75, 100])"


text \<open>The number a decimal numeral denotes, and the decimal numeral of fixed width.\<close>

definition decimal_value :: "string \<Rightarrow> nat" where
  "decimal_value s = foldl (\<lambda>acc c. 10 * acc + (of_char c - 48)) 0 s"

fun digits :: "nat \<Rightarrow> nat \<Rightarrow> string" where
  "digits 0 n = []"
| "digits (Suc w) n = digits w (n div 10) @ [digit_char (n mod 10)]"

text \<open>
  The orders of the day with prefix \<open>p\<close> carry, in the order of their insertion, the
  numbers the generator gives for the counts \<open>0, 1, 2, \<dots>\<close>
\<close>

definition numbered_in_sequence :: "string \<Rightarrow> order list \<Rightarrow> bool" where
  "numbered_in_sequence p docs =
     (map order_number (filter (matches_prefix p) docs)
        = map (\<lambda>i. p @ zfill 4 (str_nat (i + 1))) [0..<count_documents p docs])"


subsection \<open>A worked order\<close>

text \<open>
  Concrete data for the instances below. The digest primitive is the standard library's
  and is a parameter of the embedding; the instances put a stand-in in its place. A
  signature in them is either the digest itself, applied to the key and the message, or
  the three letters \<open>bad\<close>, which is no digest of 64 hexadecimal digits either.
\<close>

definition ex_digest :: "string \<Rightarrow> string \<Rightarrow> string" where
  "ex_digest key msg = key @ ''/'' @ msg"

definition ex_gateway_create :: "int \<Rightarrow> string \<Rightarrow> string option" where
  "ex_gateway_create amt receipt = Some (''order_'' @ receipt)"

definition ex_env :: env where
  "ex_env = \<lparr> RAZORPAY_KEY_ID = ''rzp_test'', RAZORPAY_KEY_SECRET = ''secret'',
              hmac_sha256_hexdigest = ex_digest,
              razorpay_order_create = ex_gateway_create,
              now_iso = ''2026-11-03T10:00:00+00:00'',
              today_yymmdd = (2026, 11, 3),
              uuid4 = ''uuid-1'' \<rparr>"

text \<open>The same environment without gateway keys: \<^verbatim>\<open>razorpay_client\<close> is \<^verbatim>\<open>None\<close>.\<close>

definition ex_env_nokeys :: env where
  "ex_env_nokeys = ex_env\<lparr> RAZORPAY_KEY_ID := [], RAZORPAY_KEY_SECRET := [] \<rparr>"

definition ex_item :: GlassItem where
  "ex_item = \<lparr> product_id = ''p1'', product_name = ''Clear glass'', thickness = 5,
               width = 24, height = 36, quantity = 10, unit_price = 1000,
               item_total_price = 10000, edging = None, tempering = False,
               lamination = False, item_notes = None \<rparr>"

definition ex_req :: OrderCreate where
  "ex_req = \<lparr> req_customer_profile_id = None, req_customer_name = Some ''Asha'',
              req_customer_phone = Some ''9000000000'', glass_items = [ex_item],
              req_advance_percent = Some 50, req_is_credit_customer = False \<rparr>"

definition ex_user :: current_user where
  "ex_user = \<lparr> user_id = Some ''u1'', role = Some ''customer'', user_name = Some ''Asha'' \<rparr>"


definition ex_db0 :: db where
  "ex_db0 = \<lparr> orders = [], customer_profiles = [], settings = None,
              cash_payments = [], ledger = [] \<rparr>"

text \<open>The document \<^verbatim>\<open>create_order\<close> makes of \<open>ex_req\<close> on the empty database.\<close>

definition ex_order :: order where
  "ex_order =
     \<lparr> order_id = ''uuid-1'', order_number = ''LG2611030001'',
       customer_id = Some ''u1'', customer_profile_id = None,
       customer_name = Some ''Asha'', customer_phone = Some ''9000000000'',
       order_items = [ex_item], total_sqft = 60, subtotal = 10000,
       tax_rate = 18 / 100, tax_amount = 1800, total_price = 11800,
       advance_percent = 50, advance_amount = 5900, remaining_amount = 5900,
       is_credit_customer = False, credit_limit = 0, credit_days = 0,
       payment_status = ''pending'', razorpay_order_id = Some ''order_LG2611030001'',
       status = ''pending'', created_at = ''2026-11-03T10:00:00+00:00'',
       updated_at = ''2026-11-03T10:00:00+00:00'',
       razorpay_payment_id = None, advance_paid_at = None, advance_payment_method = None,
       remaining_razorpay_order_id = None, remaining_razorpay_payment_id = None,
       remaining_paid_at = None, remaining_payment_method = None \<rparr>"

definition ex_invoice_post :: ledger_post where
  "ex_invoice_post =
     \<lparr> entry_type = ''sales_invoice'', reference_id = ''uuid-1'',
       reference_number = ''LG2611030001'', party_id = Some ''u1'',
       party_name = Some ''Asha'', amount = 10000, gst_amount = 1800 \<rparr>"

definition ex_db1 :: db where
  "ex_db1 = ex_db0\<lparr> orders := [ex_order], ledger := [ex_invoice_post] \<rparr>"

text \<open>
  Three callbacks for that order: one signed for the gateway order of the advance, one
  signed for some other gateway order, and one with a signature that is no digest.
\<close>

definition ex_callback :: payment_data where
  "ex_callback =
     \<lparr> pd_razorpay_payment_id = Some ''pay_A'',
       pd_razorpay_signature = Some (ex_digest ''secret'' ''order_LG2611030001|pay_A''),
       pd_razorpay_order_id = Some ''order_LG2611030001'' \<rparr>"

definition ex_callback_other :: payment_data where
  "ex_callback_other =
     \<lparr> pd_razorpay_payment_id = Some ''pay_B'',
       pd_razorpay_signature = Some (ex_digest ''secret'' ''order_other|pay_B''),
       pd_razorpay_order_id = Some ''order_other'' \<rparr>"

definition ex_callback_bad :: payment_data where
  "ex_callback_bad =
     \<lparr> pd_razorpay_payment_id = Some ''pay_C'',
       pd_razorpay_signature = Some ''bad'',
       pd_razorpay_order_id = Some ''order_LG2611030001'' \<rparr>"

text \<open>The order and the database after \<open>ex_callback\<close> has been verified.\<close>

definition ex_order_A :: order where
  "ex_order_A =
     ex_order\<lparr> razorpay_payment_id := Some ''pay_A'', payment_status := ''partial'',
               status := ''processing'',
               advance_paid_at := Some ''2026-11-03T10:00:00+00:00'' \<rparr>"

definition ex_advance_post :: ledger_post where
  "ex_advance_post =
     \<lparr> entry_type = ''payment_received'', reference_id = ''uuid-1-advance'',
       reference_number = ''RCP-LG2611030001-ADV'', party_id = Some [],
       party_name = Some ''Asha'', amount = 5900, gst_amount = 0 \<rparr>"

definition ex_db2 :: db where
  "ex_db2 = ex_db0\<lparr> orders := [ex_order_A], ledger := [ex_invoice_post, ex_advance_post] \<rparr>"

text \<open>
  The order after \<open>ex_callback_other\<close> has been verified on top of \<open>ex_callback\<close>, and
  after \<open>ex_callback_bad\<close> has gone through an environment without gateway keys.
\<close>

definition ex_order_B :: order where
  "ex_order_B = ex_order_A\<lparr> razorpay_payment_id := Some ''pay_B'' \<rparr>"

definition ex_db3 :: db where
  "ex_db3 = ex_db0\<lparr> orders := [ex_order_B],
                    ledger := [ex_invoice_post, ex_advance_post, ex_advance_post] \<rparr>"

definition ex_order_C :: order where
  "ex_order_C = ex_order_A\<lparr> razorpay_payment_id := Some ''pay_C'' \<rparr>"

definition ex_db_unverified :: db where
  "ex_db_unverified = ex_db0\<lparr> orders := [ex_order_C],
                               ledger := [ex_invoice_post, ex_advance_post] \<rparr>"

text \<open>Callbacks for the remaining leg: a signed one, a second signed one, an unsigned one.\<close>

definition ex_remaining :: RemainingPaymentVerify where
  "ex_remaining =
     \<lparr> rpv_razorpay_order_id = ''order_LG2611030001-REM'',
       rpv_razorpay_payment_id = ''pay_R'',
       rpv_razorpay_signature = ex_digest ''secret'' ''order_LG2611030001-REM|pay_R'' \<rparr>"

definition ex_remaining_again :: RemainingPaymentVerify where
  "ex_remaining_again =
     \<lparr> rpv_razorpay_order_id = ''order_LG2611030001-REM'',
       rpv_razorpay_payment_id = ''pay_S'',
       rpv_razorpay_signature = ex_digest ''secret'' ''order_LG2611030001-REM|pay_S'' \<rparr>"

definition ex_remaining_bad :: RemainingPaymentVerify where
  "ex_remaining_bad =
     \<lparr> rpv_razorpay_order_id = ''order_LG2611030001-REM'',
       rpv_razorpay_payment_id = ''pay_T'',
       rpv_razorpay_signature = ''bad'' \<rparr>"

text \<open>The order of \<open>ex_db2\<close> after \<open>ex_remaining\<close> has been verified.\<close>

definition ex_order_settled :: order where
  "ex_order_settled =
     ex_order_A\<lparr> remaining_razorpay_payment_id := Some ''pay_R'', remaining_amount := 0,
                 payment_status := ''completed'',
                 remaining_paid_at := Some ''2026-11-03T10:00:00+00:00'' \<rparr>"

definition ex_db_settled :: db where
  "ex_db_settled = ex_db0\<lparr> orders := [ex_order_settled],
                            ledger := [ex_invoice_post, ex_advance_post] \<rparr>"



text \<open>The database after each of them, the first on \<open>ex_db1\<close> and the second on \<open>ex_db2\<close>.\<close>

definition ex_order_cash :: order where
  "ex_order_cash =
     ex_order\<lparr> payment_status := ''partial'', status := ''processing'',
               advance_paid_at := Some ''2026-11-03T10:00:00+00:00'',
               advance_payment_method := Some ''cash'' \<rparr>"

definition ex_db_cash :: db where
  "ex_db_cash =
     ex_db0\<lparr> orders := [ex_order_cash], ledger := [ex_invoice_post],
             cash_payments :=
               [\<lparr> cash_id = ''uuid-1'', cash_order_id = ''uuid-1'',
                   cash_order_number = ''LG2611030001'', cash_amount = 5900,
                   cash_payment_type = ''advance'', received_by = Some ''Ravi'',
                   received_at = ''2026-11-03T10:00:00+00:00'' \<rparr>] \<rparr>"

definition ex_order_cash_settled :: order where
  "ex_order_cash_settled =
     ex_order_A\<lparr> remaining_amount := 0, payment_status := ''completed'',
                 remaining_paid_at := Some ''2026-11-03T10:00:00+00:00'',
                 remaining_payment_method := Some ''cash'' \<rparr>"

definition ex_db_cash_settled :: db where
  "ex_db_cash_settled =
     ex_db0\<lparr> orders := [ex_order_cash_settled], ledger := [ex_invoice_post, ex_advance_post],
             cash_payments :=
               [\<lparr> cash_id = ''uuid-1'', cash_order_id = ''uuid-1'',
                   cash_order_number = ''LG2611030001'', cash_amount = 5900,
                   cash_payment_type = ''remaining'', received_by = Some ''Ravi'',
                   received_at = ''2026-11-03T10:00:00+00:00'' \<rparr>] \<rparr>"

text \<open>
  Settings whose option list for normal customers goes beyond 100, and a line item with
  width 0, negative height, negative quantity and a total that is not unit price times
  quantity.
\<close>

definition ex_db_wide :: db where
  "ex_db_wide =
     ex_db0\<lparr> settings := Some
       \<lparr> normal_customer_min = Some 50, normal_customer_options = Some [50, 75, 100, 150],
         credit_customer_min = Some 0, credit_customer_options = Some [0, 25, 50, 75, 100],
         admin_override_allowed = Some True, max_credit_limit = Some 100000 \<rparr> \<rparr>"













text \<open>A day on which 9999 orders have been created already.\<close>

definition ex_day_order :: "nat \<Rightarrow> order" where
  "ex_day_order i =
     ex_order\<lparr> order_id := ''day-'' @ str_nat i,
               order_number := ''LG261103'' @ zfill 4 (str_nat (i + 1)) \<rparr>"

definition ex_db_full :: db where
  "ex_db_full = ex_db0\<lparr> orders := map ex_day_order [0..<9999] \<rparr>"

section \<open>Properties\<close>

subsection \<open>Rounding and numerals\<close>





lemma str_nat_small: "n < 10 \<Longrightarrow> str_nat n = [digit_char n]"
  by (subst str_nat.simps) simp

lemma str_nat_big: "10 \<le> n \<Longrightarrow> str_nat n = str_nat (n div 10) @ [digit_char (n mod 10)]"
  by (subst str_nat.simps) simp

subsection \<open>The worked order, step by step\<close>

lemma zfill4_1: "zfill 4 (str_nat 1) = ''0001''"
  by (simp add: zfill_def str_nat_small digit_char_def eval_nat_numeral)

lemma ex_prefix: "order_prefix ex_env = ''LG261103''"
  by (simp add: order_prefix_def ex_env_def strftime_yymmdd_def zfill_def str_nat_small
      str_nat_big digit_char_def)

lemma ex_number: "generate_order_number ex_env ex_db0 = ''LG2611030001''"
  using zfill4_1
  by (simp add: generate_order_number_def ex_prefix count_documents_def ex_db0_def)

lemma ex_totals:
  "calc_subtotal [ex_item] = 10000" "calc_tax_amount [ex_item] = 1800"
  "calc_total_price [ex_item] = 11800" "calc_total_sqft [ex_item] = 60"
  by (simp_all add: calc_subtotal_def calc_tax_amount_def calc_total_price_def
      calc_total_sqft_def TAX_RATE_def ex_item_def round2_def round_half_even_def)

lemma ex_env_simps:
  "razorpay_client ex_env" "uuid4 ex_env = ''uuid-1''"
  "now_iso ex_env = ''2026-11-03T10:00:00+00:00''"
  "razorpay_order_create ex_env = ex_gateway_create"
  "RAZORPAY_KEY_SECRET ex_env = ''secret''"
  "hmac_sha256_hexdigest ex_env = ex_digest"
  by (simp_all add: ex_env_def razorpay_client_def)

lemma ex_db0_simps:
  "orders ex_db0 = []" "settings ex_db0 = None" "ledger ex_db0 = []"
  "customer_profiles ex_db0 = []" "cash_payments ex_db0 = []"
  by (simp_all add: ex_db0_def)

lemma ex_create: "create_order ex_env ex_db0 ex_req ex_user = (ex_db1, Inr ex_order)"
  by (simp add: create_order_def resolve_customer_def ex_req_def ex_user_def ex_totals
      validate_advance_percent_def get_advance_settings_def default_settings_def get_or_def
      new_order_def sales_invoice_post_def ex_number ex_order_def ex_db1_def ex_invoice_post_def
      TAX_RATE_def round2_def round_half_even_def py_int_def py_or_def
      Let_def ex_env_simps ex_db0_simps ex_gateway_create_def)

lemma ex_find1: "find_order ex_db1 ''uuid-1'' = Some ex_order"
  by (simp add: find_order_def ex_db1_def ex_order_def)

lemma ex_verify:
  "verify_payment ex_env ex_db1 ''uuid-1'' ex_callback ex_user = (ex_db2, Inr ''partial'')"
  by (simp add: verify_payment_def find_order_def ex_env_simps expected_signature_def ex_callback_def
      advance_payment_status_def set_advance_paid_def advance_payment_post_def Let_def
      ex_db1_def ex_db2_def ex_order_A_def ex_advance_post_def ex_order_def)

lemma ex_find2: "find_order ex_db2 ''uuid-1'' = Some ex_order_A"
  by (simp add: find_order_def ex_db2_def ex_order_A_def ex_order_def)

subsection \<open>Finding and rewriting a stored order\<close>

lemma find_update_one:
  "(\<And>x. order_id (f x) = order_id x) \<Longrightarrow>
   find (\<lambda>doc. order_id doc = oid) (update_one oid f docs)
     = map_option f (find (\<lambda>doc. order_id doc = oid) docs)"
  by (induction docs) simp_all


lemma find_order_updated:
  "(\<And>x. order_id (f x) = order_id x) \<Longrightarrow>
   find_order (d\<lparr> orders := update_one oid f (orders d), ledger := l \<rparr>) oid
     = map_option f (find_order d oid)"
  by (simp add: find_order_def find_update_one)

lemma find_order_updated_orders:
  "(\<And>x. order_id (f x) = order_id x) \<Longrightarrow>
   find_order (d\<lparr> orders := update_one oid f (orders d) \<rparr>) oid
     = map_option f (find_order d oid)"
  by (simp add: find_order_def find_update_one)


lemma order_id_set_advance_paid: "order_id (set_advance_paid e pd ps x) = order_id x"
  by (simp add: set_advance_paid_def)

lemma order_id_set_remaining_paid: "order_id (set_remaining_paid e pd x) = order_id x"
  by (simp add: set_remaining_paid_def)


subsection \<open>The outcomes of the verification endpoints\<close>

lemma verify_payment_rejects:
  "find_order d oid = Some doc \<Longrightarrow> razorpay_client e \<Longrightarrow>
   Some (expected_signature e (fmt (pd_razorpay_order_id pd)) (fmt (pd_razorpay_payment_id pd)))
     \<noteq> pd_razorpay_signature pd \<Longrightarrow>
   verify_payment e d oid pd cu = (d, Inl (HTTPException 400 Payment_verification_failed))"
  by (simp add: verify_payment_def)

lemma verify_payment_accepts:
  "find_order d oid = Some doc \<Longrightarrow>
   \<not> razorpay_client e \<or>
   Some (expected_signature e (fmt (pd_razorpay_order_id pd)) (fmt (pd_razorpay_payment_id pd)))
     = pd_razorpay_signature pd \<Longrightarrow>
   verify_payment e d oid pd cu =
     (d\<lparr> orders := update_one oid (set_advance_paid e pd (advance_payment_status doc)) (orders d),
         ledger := ledger d @ [advance_payment_post oid doc] \<rparr>,
      Inr (advance_payment_status doc))"
  by (auto simp: verify_payment_def Let_def)

lemma verify_payment_success:
  assumes "verify_payment e d oid pd cu = (d', Inr ps)"
  obtains doc where "find_order d oid = Some doc" "ps = advance_payment_status doc"
    "d' = d\<lparr> orders := update_one oid (set_advance_paid e pd ps) (orders d),
              ledger := ledger d @ [advance_payment_post oid doc] \<rparr>"
  using assms by (auto simp: verify_payment_def Let_def split: option.splits if_splits)

lemma verify_remaining_rejects:
  "find_order d oid = Some doc \<Longrightarrow> razorpay_client e \<Longrightarrow>
   expected_signature e (rpv_razorpay_order_id pd) (rpv_razorpay_payment_id pd)
     \<noteq> rpv_razorpay_signature pd \<Longrightarrow>
   verify_remaining_payment e d oid pd cu
     = (d, Inl (HTTPException 400 Payment_verification_failed))"
  by (simp add: verify_remaining_payment_def)

lemma verify_remaining_success:
  assumes "verify_remaining_payment e d oid pd cu = (d', Inr ps)"
  obtains doc where "find_order d oid = Some doc" "ps = ''completed''"
    "d' = d\<lparr> orders := update_one oid (set_remaining_paid e pd) (orders d) \<rparr>"
  using assms by (auto simp: verify_remaining_payment_def split: option.splits if_splits)

lemma ex_nokeys_simps:
  "\<not> razorpay_client ex_env_nokeys"
  "now_iso ex_env_nokeys = ''2026-11-03T10:00:00+00:00''"
  "RAZORPAY_KEY_SECRET ex_env_nokeys = []"
  "hmac_sha256_hexdigest ex_env_nokeys = ex_digest"
  by (simp_all add: ex_env_nokeys_def ex_env_def razorpay_client_def)

lemma ex_verify_other:
  "verify_payment ex_env ex_db2 ''uuid-1'' ex_callback_other ex_user = (ex_db3, Inr ''partial'')"
  by (simp add: verify_payment_def find_order_def ex_env_simps expected_signature_def
      ex_callback_other_def advance_payment_status_def set_advance_paid_def
      advance_payment_post_def Let_def ex_db2_def ex_db3_def ex_order_A_def ex_order_B_def
      ex_advance_post_def ex_order_def)

lemma ex_find3: "find_order ex_db3 ''uuid-1'' = Some ex_order_B"
  by (simp add: find_order_def ex_db3_def ex_order_B_def ex_order_A_def ex_order_def)

lemma ex_verify_nokeys:
  "verify_payment ex_env_nokeys ex_db1 ''uuid-1'' ex_callback_bad ex_user
     = (ex_db_unverified, Inr ''partial'')"
  by (simp add: verify_payment_def find_order_def ex_nokeys_simps
      ex_callback_bad_def advance_payment_status_def set_advance_paid_def
      advance_payment_post_def Let_def ex_db1_def ex_db_unverified_def ex_order_A_def
      ex_order_C_def ex_advance_post_def ex_order_def)

lemma ex_bad_mismatch:
  "Some (expected_signature ex_env_nokeys (fmt (pd_razorpay_order_id ex_callback_bad))
           (fmt (pd_razorpay_payment_id ex_callback_bad)))
     \<noteq> pd_razorpay_signature ex_callback_bad"
  "Some (expected_signature ex_env (fmt (pd_razorpay_order_id ex_callback_bad))
           (fmt (pd_razorpay_payment_id ex_callback_bad)))
     \<noteq> pd_razorpay_signature ex_callback_bad"
  "expected_signature ex_env (rpv_razorpay_order_id ex_remaining_bad)
           (rpv_razorpay_payment_id ex_remaining_bad)
     \<noteq> rpv_razorpay_signature ex_remaining_bad"
  by (simp_all add: expected_signature_def ex_nokeys_simps ex_env_simps ex_callback_bad_def
      ex_remaining_bad_def ex_digest_def)

lemma ex_verify_remaining:
  "verify_remaining_payment ex_env ex_db2 ''uuid-1'' ex_remaining ex_user
     = (ex_db_settled, Inr ''completed'')"
  by (simp add: verify_remaining_payment_def find_order_def ex_env_simps expected_signature_def
      ex_remaining_def set_remaining_paid_def ex_db2_def ex_db_settled_def ex_order_settled_def
      ex_order_A_def ex_order_def)


subsection \<open>The outcomes of order creation\<close>

lemma create_order_success:
  assumes "create_order e d od cu = (d', Inr doc)"
  obtains c p where "resolve_customer d od = Inr c"
    "doc = new_order e d od cu c p"
    "d' = d\<lparr> orders := orders d @ [doc], ledger := ledger d @ [sales_invoice_post od doc] \<rparr>"
  using assms
  by (auto simp: create_order_def Let_def
      split: sum.splits if_splits prod.splits bool.splits)











lemma ex_orders:
  "orders ex_db1 = [ex_order]" "orders ex_db2 = [ex_order_A]" "orders ex_db_cash = [ex_order_cash]"
  "orders ex_db_settled = [ex_order_settled]" "orders ex_db_cash_settled = [ex_order_cash_settled]"
  by (simp_all add: ex_db1_def ex_db2_def ex_db_cash_def ex_db_settled_def ex_db_cash_settled_def)

subsection \<open>The advance policy and the line items\<close>

lemma validate_accepts_iff:
  "fst (validate_advance_percent d t p c r) \<longleftrightarrow>
     (privileged_override d r \<and> 0 \<le> p \<and> p \<le> 100)
     \<or> (\<not> privileged_override d r \<and> class_min d c \<le> p \<and> p \<in> set (class_options d c))"
  by (auto simp: validate_advance_percent_def privileged_override_def class_min_def
      class_options_def Let_def)

lemma validate_reason:
  "snd (validate_advance_percent d t p c r) =
     (if fst (validate_advance_percent d t p c r) then None
      else if privileged_override d r then Some (Invalid_advance_percentage p)
      else if p < class_min d c then Some (Minimum_advance_required (class_min d c))
      else Some (Advance_must_be_one_of (class_options d c)))"
  by (auto simp: validate_advance_percent_def privileged_override_def class_min_def
      class_options_def Let_def)





subsection \<open>The credit check\<close>


















subsection \<open>Decimal numerals\<close>

lemma below_ten: "d < 10 \<Longrightarrow> d \<in> {0, 1, 2, 3, 4, 5, 6, 7, 8, 9 :: nat}"
  by auto

lemma digit_char_code: "d < 10 \<Longrightarrow> of_char (digit_char d) = 48 + d"
  using below_ten [of d] by (auto simp: digit_char_def)

lemma digit_char_less: "i < j \<Longrightarrow> j < 10 \<Longrightarrow> digit_char i < digit_char j"
  by (simp add: less_char_def digit_char_code)

lemma digit_char_0: "digit_char 0 = CHR ''0''"
  by (simp add: digit_char_def)

lemma length_digits: "length (digits w n) = w"
  by (induction w arbitrary: n) simp_all

lemma digits_0: "digits w 0 = replicate w CHR ''0''"
  by (induction w) (simp_all add: digit_char_0 replicate_append_same)

lemma zfill_snoc: "zfill (Suc w) (s @ [c]) = zfill w s @ [c]"
  by (simp add: zfill_def)

lemma zfill_digits: "n < 10 ^ Suc w \<Longrightarrow> zfill (Suc w) (str_nat n) = digits (Suc w) n"
proof (induction w arbitrary: n)
  case 0
  then show ?case by (simp add: str_nat_small zfill_def)
next
  case (Suc w)
  show ?case
  proof (cases "n < 10")
    case True
    then show ?thesis
      by (simp add: str_nat_small zfill_def digits_0 replicate_append_same)
  next
    case False
    from Suc.prems have "n div 10 < 10 ^ Suc w" by simp
    then have "zfill (Suc w) (str_nat (n div 10)) = digits (Suc w) (n div 10)"
      by (rule Suc.IH)
    with False show ?thesis
      by (simp add: str_nat_big zfill_snoc del: digits.simps) simp
  qed
qed

lemma digits_less: "a < b \<Longrightarrow> b < 10 ^ w \<Longrightarrow> digits w a < digits w b"
proof (induction w arbitrary: a b)
  case 0
  then show ?case by simp
next
  case (Suc w)
  have le: "a div 10 \<le> b div 10"
    using Suc.prems(1) by (simp add: div_le_mono)
  show ?case
  proof (cases "a div 10 < b div 10")
    case True
    moreover from Suc.prems(2) have "b div 10 < 10 ^ w" by simp
    ultimately have "digits w (a div 10) < digits w (b div 10)"
      by (rule Suc.IH)
    then have "(digits w (a div 10), digits w (b div 10)) \<in> lexord {(u, v). u < v}"
      by (simp add: list_less_def)
    then have "(digits w (a div 10) @ [digit_char (a mod 10)],
                digits w (b div 10) @ [digit_char (b mod 10)]) \<in> lexord {(u, v). u < v}"
      by (rule lexord_sufI) (simp add: length_digits)
    then show ?thesis by (simp add: list_less_def)
  next
    case False
    with le have eq: "a div 10 = b div 10" by simp
    have "a mod 10 < b mod 10"
      using Suc.prems(1) eq by (metis div_mult_mod_eq nat_add_left_cancel_less)
    then have "digit_char (a mod 10) < digit_char (b mod 10)"
      by (rule digit_char_less) simp
    then have "([digit_char (a mod 10)], [digit_char (b mod 10)]) \<in> lexord {(u, v). u < v}"
      by simp
    then have "(digits w (b div 10) @ [digit_char (a mod 10)],
                digits w (b div 10) @ [digit_char (b mod 10)]) \<in> lexord {(u, v). u < v}"
      by (rule lexord_append_leftI)
    then show ?thesis by (simp add: list_less_def eq)
  qed
qed

lemma zfill4_digits: "n < 10000 \<Longrightarrow> zfill 4 (str_nat n) = digits 4 n"
  using zfill_digits [of n 3] by simp

lemma zfill2_digits: "n < 100 \<Longrightarrow> zfill 2 (str_nat n) = digits 2 n"
  using zfill_digits [of n 1] by (simp add: numeral_2_eq_2)

lemma zfill4_less:
  "a < b \<Longrightarrow> b < 10000 \<Longrightarrow> zfill 4 (str_nat a) < zfill 4 (str_nat b)"
  using digits_less [of a b 4] by (simp add: zfill4_digits)

lemma append_less_same: "p @ xs < p @ ys \<longleftrightarrow> xs < ys" for p :: string
  by (simp add: list_less_def lexord_same_pref_iff)

lemma decimal_value_snoc:
  "decimal_value (s @ [c]) = 10 * decimal_value s + (of_char c - 48)"
  by (simp add: decimal_value_def)

lemma decimal_value_str_nat: "decimal_value (str_nat n) = n"
proof (induction n rule: str_nat.induct)
  case (1 n)
  show ?case
  proof (cases "n < 10")
    case True
    then show ?thesis
      by (simp add: str_nat_small decimal_value_def digit_char_code)
  next
    case False
    with 1 have "decimal_value (str_nat (n div 10)) = n div 10" by simp
    with False show ?thesis
      by (simp add: str_nat_big decimal_value_snoc digit_char_code)
  qed
qed

lemma decimal_value_zeros:
  "decimal_value (replicate k CHR ''0'' @ s) = decimal_value s"
proof -
  have "foldl (\<lambda>acc c. 10 * acc + (of_char c - 48)) 0 (replicate k CHR ''0'') = (0::nat)"
    by (induction k) simp_all
  then show ?thesis by (simp add: decimal_value_def)
qed

lemma decimal_value_zfill: "decimal_value (zfill w (str_nat n)) = n"
  by (simp add: zfill_def decimal_value_zeros decimal_value_str_nat)

lemma length_zfill4: "n < 10000 \<Longrightarrow> length (zfill 4 (str_nat n)) = 4"
  by (simp add: zfill4_digits length_digits)

lemma length_zfill2: "n < 100 \<Longrightarrow> length (zfill 2 (str_nat n)) = 2"
  by (simp add: zfill2_digits length_digits)

subsection \<open>Order numbers\<close>

lemma generate_order_number_eq:
  "generate_order_number e d
     = order_prefix e @ zfill 4 (str_nat (count_documents (order_prefix e) (orders d) + 1))"
  by (simp add: generate_order_number_def Let_def)

lemma number_inj:
  assumes "p @ zfill w (str_nat a) = p @ zfill w (str_nat b)"
  shows "a = b"
proof -
  from assms have "zfill w (str_nat a) = zfill w (str_nat b)"
    by simp
  then have "decimal_value (zfill w (str_nat a)) = decimal_value (zfill w (str_nat b))"
    by (rule arg_cong)
  then show ?thesis
    by (simp only: decimal_value_zfill)
qed

lemma length_order_prefix:
  "fst (snd (today_yymmdd e)) < 100 \<Longrightarrow> snd (snd (today_yymmdd e)) < 100
   \<Longrightarrow> length (order_prefix e) = 8"
  by (cases "today_yymmdd e")
     (simp add: order_prefix_def strftime_yymmdd_def length_zfill2)

lemma number_fresh:
  assumes "numbered_in_sequence p docs"
  shows "p @ zfill 4 (str_nat (count_documents p docs + 1)) \<notin> order_number ` set docs"
proof
  let ?k = "count_documents p docs"
  assume "p @ zfill 4 (str_nat (?k + 1)) \<in> order_number ` set docs"
  then obtain doc where doc: "doc \<in> set docs"
    and num: "order_number doc = p @ zfill 4 (str_nat (?k + 1))"
    by auto
  from num have "matches_prefix p doc"
    by (simp add: matches_prefix_def)
  with doc have "order_number doc \<in> set (map order_number (filter (matches_prefix p) docs))"
    by simp
  with assms have "order_number doc \<in> set (map (\<lambda>i. p @ zfill 4 (str_nat (i + 1))) [0..<?k])"
    by (simp only: numbered_in_sequence_def)
  then obtain i where "i < ?k" and "order_number doc = p @ zfill 4 (str_nat (i + 1))"
    by auto
  with num have "p @ zfill 4 (str_nat (i + 1)) = p @ zfill 4 (str_nat (?k + 1))"
    by simp
  then have "i + 1 = ?k + 1"
    by (rule number_inj)
  with \<open>i < ?k\<close> show False by simp
qed

lemma number_sequence_extended:
  assumes "numbered_in_sequence p docs"
    and "order_number doc = p @ zfill 4 (str_nat (count_documents p docs + 1))"
  shows "numbered_in_sequence p (docs @ [doc])"
proof -
  have m: "matches_prefix p doc"
    using assms(2) by (simp add: matches_prefix_def)
  then have c: "count_documents p (docs @ [doc]) = Suc (count_documents p docs)"
    by (simp add: count_documents_def)
  show ?thesis
    using assms m unfolding numbered_in_sequence_def c
    by simp
qed

lemma new_order_number: "order_number (new_order e d od cu c p) = generate_order_number e d"
  by (simp add: new_order_def Let_def)

lemma ex_numbers:
  "generate_order_number ex_env ex_db1 = ''LG2611030002''"
  by (simp add: generate_order_number_eq ex_prefix count_documents_def matches_prefix_def
      ex_orders ex_order_def zfill_def str_nat_small digit_char_def eval_nat_numeral)

lemma ex_day_order_number: "order_number (ex_day_order i) = ''LG261103'' @ zfill 4 (str_nat (i + 1))"
  by (simp add: ex_day_order_def)

lemma ex_full_orders: "orders ex_db_full = map ex_day_order [0..<9999]"
  by (simp add: ex_db_full_def)

lemma ex_full_filter:
  "filter (matches_prefix ''LG261103'') (map ex_day_order [0..<n]) = map ex_day_order [0..<n]"
proof -
  have "\<forall>x\<in>set (map ex_day_order [0..<n]). matches_prefix ''LG261103'' x"
    by (auto simp: matches_prefix_def ex_day_order_number)
  then show ?thesis by (simp only: filter_True)
qed

lemma ex_full_count: "count_documents ''LG261103'' (orders ex_db_full) = 9999"
  by (simp add: count_documents_def ex_full_orders ex_full_filter)

lemma ex_full_sequence: "numbered_in_sequence ''LG261103'' (orders ex_db_full)"
  unfolding numbered_in_sequence_def ex_full_count
  by (simp add: ex_full_orders ex_full_filter ex_day_order_number comp_def)

lemma str_nat_9999: "str_nat 9999 = ''9999''" "str_nat 10000 = ''10000''"
  by (simp_all add: str_nat_small str_nat_big digit_char_def)

lemma ex_full_last: "order_number (last (orders ex_db_full)) = ''LG2611039999''"
proof -
  have "[0..<9999] = [0..<9998] @ [9998]"
    using upt_Suc_append [of 0 9998] by simp
  then have "last (map ex_day_order [0..<9999]) = ex_day_order 9998"
    by simp
  then show ?thesis
    by (simp add: ex_full_orders ex_day_order_number str_nat_9999 zfill_def)
qed

lemma ex_full_next: "generate_order_number ex_env ex_db_full = ''LG26110310000''"
  by (simp add: generate_order_number_eq ex_prefix ex_full_count str_nat_9999 zfill_def)

section \<open>The claims\<close>

text \<open>
  C7. For every order, a successful advance-payment verification by \<open>verify_payment\<close>
  sets the payment status to \<open>partial\<close> if the order's remaining amount is positive and
  to \<open>completed\<close> otherwise, and sets the fulfilment status to \<open>processing\<close>; the
  response carries the same payment status.
\<close>

theorem C7_advance_transition:
  assumes "verify_payment e d oid pd cu = (d', Inr ps)"
  shows "\<exists>doc doc'. find_order d oid = Some doc \<and> find_order d' oid = Some doc'
           \<and> payment_status doc' = (if 0 < remaining_amount doc then ''partial'' else ''completed'')
           \<and> status doc' = ''processing''
           \<and> ps = payment_status doc'"
proof -
  from assms obtain doc where doc: "find_order d oid = Some doc"
    and ps: "ps = advance_payment_status doc"
    and d': "d' = d\<lparr> orders := update_one oid (set_advance_paid e pd ps) (orders d),
                      ledger := ledger d @ [advance_payment_post oid doc] \<rparr>"
    by (rule verify_payment_success)
  have found: "find_order d' oid = Some (set_advance_paid e pd ps doc)"
    unfolding d' by (simp add: find_order_updated order_id_set_advance_paid doc)
  have "payment_status (set_advance_paid e pd ps doc)
          = (if 0 < remaining_amount doc then ''partial'' else ''completed'')"
    by (simp add: set_advance_paid_def ps advance_payment_status_def)
  moreover have "status (set_advance_paid e pd ps doc) = ''processing''"
    by (simp add: set_advance_paid_def ps advance_payment_status_def)
  moreover have "ps = payment_status (set_advance_paid e pd ps doc)"
    by (simp add: set_advance_paid_def)
  ultimately show ?thesis using doc found by blast
qed

text \<open>
  The worked order: 5900 remain after the advance, so the verified callback leaves it
  \<open>partial\<close> and \<open>processing\<close>.
\<close>

theorem C7_advance_transition_witness:
  "verify_payment ex_env ex_db1 ''uuid-1'' ex_callback ex_user = (ex_db2, Inr ''partial'')
   \<and> (\<exists>doc doc'. find_order ex_db1 ''uuid-1'' = Some doc \<and> find_order ex_db2 ''uuid-1'' = Some doc'
         \<and> payment_status doc' = (if 0 < remaining_amount doc then ''partial'' else ''completed'')
         \<and> status doc' = ''processing''
         \<and> ''partial'' = payment_status doc')"
  using C7_advance_transition [OF ex_verify] ex_verify by blast

text \<open>
  C10. For every stored order and every callback whose signature is the digest of the
  callback's own pair of gateway order id and payment id, \<open>verify_payment\<close> succeeds,
  records the callback's payment id and applies the advance transition. Nothing in the
  hypotheses relates the callback's gateway order id to the one stored with the order, or
  any paid amount to the order's advance amount; the stored gateway order id and the
  advance amount are left as they were.
\<close>

theorem C10_callback_not_bound_to_order:
  assumes "find_order d oid = Some doc"
    and "pd_razorpay_signature pd
           = Some (expected_signature e (fmt (pd_razorpay_order_id pd)) (fmt (pd_razorpay_payment_id pd)))"
  shows "\<exists>d' doc'. verify_payment e d oid pd cu = (d', Inr (payment_status doc'))
           \<and> find_order d' oid = Some doc'
           \<and> razorpay_payment_id doc' = pd_razorpay_payment_id pd
           \<and> payment_status doc' = (if 0 < remaining_amount doc then ''partial'' else ''completed'')
           \<and> status doc' = ''processing''
           \<and> razorpay_order_id doc' = razorpay_order_id doc
           \<and> advance_amount doc' = advance_amount doc"
proof -
  let ?ps = "advance_payment_status doc"
  let ?d' = "d\<lparr> orders := update_one oid (set_advance_paid e pd ?ps) (orders d),
                 ledger := ledger d @ [advance_payment_post oid doc] \<rparr>"
  let ?doc' = "set_advance_paid e pd ?ps doc"
  have run: "verify_payment e d oid pd cu = (?d', Inr ?ps)"
    using assms by (simp add: verify_payment_accepts)
  have found: "find_order ?d' oid = Some ?doc'"
    by (simp add: find_order_updated order_id_set_advance_paid assms(1))
  have fields: "payment_status ?doc' = ?ps" "razorpay_payment_id ?doc' = pd_razorpay_payment_id pd"
    "status ?doc' = ''processing''" "razorpay_order_id ?doc' = razorpay_order_id doc"
    "advance_amount ?doc' = advance_amount doc"
    by (simp_all add: set_advance_paid_def advance_payment_status_def)
  have "?ps = (if 0 < remaining_amount doc then ''partial'' else ''completed'')"
    by (simp add: advance_payment_status_def)
  with run found fields show ?thesis by metis
qed

text \<open>
  The worked order was created with gateway order \<open>order_LG2611030001\<close>; a callback
  signed for \<open>order_other\<close> is accepted for it all the same.
\<close>

theorem C10_callback_not_bound_to_order_witness:
  "find_order ex_db1 ''uuid-1'' = Some ex_order
   \<and> razorpay_order_id ex_order \<noteq> pd_razorpay_order_id ex_callback_other
   \<and> pd_razorpay_signature ex_callback_other
       = Some (expected_signature ex_env (fmt (pd_razorpay_order_id ex_callback_other))
                 (fmt (pd_razorpay_payment_id ex_callback_other)))
   \<and> (\<exists>d' doc'. verify_payment ex_env ex_db1 ''uuid-1'' ex_callback_other ex_user
                    = (d', Inr (payment_status doc'))
         \<and> find_order d' ''uuid-1'' = Some doc'
         \<and> razorpay_payment_id doc' = pd_razorpay_payment_id ex_callback_other
         \<and> payment_status doc'
             = (if 0 < remaining_amount ex_order then ''partial'' else ''completed'')
         \<and> status doc' = ''processing''
         \<and> razorpay_order_id doc' = razorpay_order_id ex_order
         \<and> advance_amount doc' = advance_amount ex_order)"
proof -
  have sig: "pd_razorpay_signature ex_callback_other
       = Some (expected_signature ex_env (fmt (pd_razorpay_order_id ex_callback_other))
                 (fmt (pd_razorpay_payment_id ex_callback_other)))"
    by (simp add: ex_callback_other_def expected_signature_def ex_env_simps)
  have other: "razorpay_order_id ex_order \<noteq> pd_razorpay_order_id ex_callback_other"
    by (simp add: ex_order_def ex_callback_other_def)
  from C10_callback_not_bound_to_order [OF ex_find1 sig] ex_find1 sig other
  show ?thesis by blast
qed

text \<open>
  C6, as the code has it. The signature is checked only when the gateway client is
  configured. Then, for every stored order, a callback whose signature is not the digest
  of \<open>gateway order id | payment id\<close> under the key secret makes \<open>verify_payment\<close> and
  \<open>verify_remaining_payment\<close> raise \<open>Payment verification failed\<close> and return the
  database as it was: no order field and no ledger entry is written.
\<close>

theorem C6_bad_signature_rejected:
  assumes "razorpay_client e" and "find_order d oid = Some doc"
  shows "(Some (expected_signature e (fmt (pd_razorpay_order_id pd)) (fmt (pd_razorpay_payment_id pd)))
            \<noteq> pd_razorpay_signature pd
          \<longrightarrow> verify_payment e d oid pd cu
                = (d, Inl (HTTPException 400 Payment_verification_failed)))
       \<and> (expected_signature e (rpv_razorpay_order_id rpd) (rpv_razorpay_payment_id rpd)
            \<noteq> rpv_razorpay_signature rpd
          \<longrightarrow> verify_remaining_payment e d oid rpd cu
                = (d, Inl (HTTPException 400 Payment_verification_failed)))"
  using assms by (simp add: verify_payment_rejects verify_remaining_rejects)

theorem C6_bad_signature_rejected_witness:
  "razorpay_client ex_env \<and> find_order ex_db1 ''uuid-1'' = Some ex_order
   \<and> Some (expected_signature ex_env (fmt (pd_razorpay_order_id ex_callback_bad))
             (fmt (pd_razorpay_payment_id ex_callback_bad)))
       \<noteq> pd_razorpay_signature ex_callback_bad
   \<and> verify_payment ex_env ex_db1 ''uuid-1'' ex_callback_bad ex_user
       = (ex_db1, Inl (HTTPException 400 Payment_verification_failed))
   \<and> expected_signature ex_env (rpv_razorpay_order_id ex_remaining_bad)
             (rpv_razorpay_payment_id ex_remaining_bad)
       \<noteq> rpv_razorpay_signature ex_remaining_bad
   \<and> verify_remaining_payment ex_env ex_db1 ''uuid-1'' ex_remaining_bad ex_user
       = (ex_db1, Inl (HTTPException 400 Payment_verification_failed))"
  using C6_bad_signature_rejected [OF ex_env_simps(1) ex_find1,
      where pd = ex_callback_bad and rpd = ex_remaining_bad and cu = ex_user]
    ex_env_simps(1) ex_find1 ex_bad_mismatch(2,3)
  by blast

text \<open>
  The claim as stated fails where the client is not configured: without gateway keys the
  callback with signature \<open>bad\<close> is taken for a payment, the pending order becomes
  \<open>partial\<close> and a payment is posted to the ledger.
\<close>

theorem C6_counterexample:
  "find_order ex_db1 ''uuid-1'' = Some ex_order
   \<and> Some (expected_signature ex_env_nokeys (fmt (pd_razorpay_order_id ex_callback_bad))
             (fmt (pd_razorpay_payment_id ex_callback_bad)))
       \<noteq> pd_razorpay_signature ex_callback_bad
   \<and> verify_payment ex_env_nokeys ex_db1 ''uuid-1'' ex_callback_bad ex_user
       = (ex_db_unverified, Inr ''partial'')
   \<and> payment_status ex_order = ''pending''
   \<and> find_order ex_db_unverified ''uuid-1'' = Some ex_order_C
   \<and> payment_status ex_order_C = ''partial''
   \<and> razorpay_payment_id ex_order_C = Some ''pay_C''
   \<and> ledger ex_db_unverified = ledger ex_db1 @ [ex_advance_post]"
  using ex_find1 ex_bad_mismatch(1) ex_verify_nokeys
  by (simp add: find_order_def ex_db_unverified_def ex_order_C_def ex_order_A_def ex_order_def
      ex_db1_def)

text \<open>
  C2, as the code has it. No endpoint looks at a payment id already recorded. A second
  successful \<open>verify_payment\<close> applies the transition again: it puts the second
  callback's payment id in place of the first, stamps the advance as paid at the time of
  the second call and hands the ledger one more \<open>payment_received\<close> posting; the payment
  status and the remaining amount come out as the first call left them. A second
  successful \<open>verify_remaining_payment\<close> likewise puts the second callback's payment id
  in place of the first and sets the remaining amount to 0 and the payment status to
  \<open>completed\<close> once more.
\<close>

theorem C2_second_verification_reapplies:
  "(verify_payment e1 d oid pd1 cu1 = (d1, Inr ps1)
      \<and> (razorpay_client e2 \<longrightarrow>
           pd_razorpay_signature pd2
             = Some (expected_signature e2 (fmt (pd_razorpay_order_id pd2))
                       (fmt (pd_razorpay_payment_id pd2))))
    \<longrightarrow> (\<exists>d2 doc1 doc2. verify_payment e2 d1 oid pd2 cu2 = (d2, Inr ps1)
           \<and> find_order d1 oid = Some doc1 \<and> find_order d2 oid = Some doc2
           \<and> razorpay_payment_id doc1 = pd_razorpay_payment_id pd1
           \<and> razorpay_payment_id doc2 = pd_razorpay_payment_id pd2
           \<and> payment_status doc2 = payment_status doc1
           \<and> remaining_amount doc2 = remaining_amount doc1
           \<and> advance_paid_at doc2 = Some (now_iso e2)
           \<and> ledger d2 = ledger d1 @ [advance_payment_post oid doc1]))
   \<and> (verify_remaining_payment e1 d oid r1 cu1 = (d1', Inr s1)
      \<and> (razorpay_client e2 \<longrightarrow>
           rpv_razorpay_signature r2
             = expected_signature e2 (rpv_razorpay_order_id r2) (rpv_razorpay_payment_id r2))
    \<longrightarrow> (\<exists>d2 doc1 doc2. verify_remaining_payment e2 d1' oid r2 cu2 = (d2, Inr ''completed'')
           \<and> find_order d1' oid = Some doc1 \<and> find_order d2 oid = Some doc2
           \<and> remaining_razorpay_payment_id doc1 = Some (rpv_razorpay_payment_id r1)
           \<and> remaining_razorpay_payment_id doc2 = Some (rpv_razorpay_payment_id r2)
           \<and> payment_status doc2 = ''completed'' \<and> remaining_amount doc2 = 0
           \<and> remaining_paid_at doc2 = Some (now_iso e2)))"
proof (intro conjI impI)
  assume h: "verify_payment e1 d oid pd1 cu1 = (d1, Inr ps1)
      \<and> (razorpay_client e2 \<longrightarrow>
           pd_razorpay_signature pd2
             = Some (expected_signature e2 (fmt (pd_razorpay_order_id pd2))
                       (fmt (pd_razorpay_payment_id pd2))))"
  then obtain doc where doc: "find_order d oid = Some doc"
    and ps1: "ps1 = advance_payment_status doc"
    and d1: "d1 = d\<lparr> orders := update_one oid (set_advance_paid e1 pd1 ps1) (orders d),
                      ledger := ledger d @ [advance_payment_post oid doc] \<rparr>"
    by (blast elim: verify_payment_success)
  let ?doc1 = "set_advance_paid e1 pd1 ps1 doc"
  have f1: "find_order d1 oid = Some ?doc1"
    unfolding d1 by (simp add: find_order_updated order_id_set_advance_paid doc)
  have same: "advance_payment_status ?doc1 = ps1"
    by (simp add: advance_payment_status_def set_advance_paid_def ps1)
  let ?d2 = "d1\<lparr> orders := update_one oid (set_advance_paid e2 pd2 ps1) (orders d1),
                  ledger := ledger d1 @ [advance_payment_post oid ?doc1] \<rparr>"
  let ?doc2 = "set_advance_paid e2 pd2 ps1 ?doc1"
  have run: "verify_payment e2 d1 oid pd2 cu2 = (?d2, Inr ps1)"
    using verify_payment_accepts [OF f1, of e2 pd2 cu2] h same by auto
  have f2: "find_order ?d2 oid = Some ?doc2"
    by (simp add: find_order_updated order_id_set_advance_paid f1)
  have fields: "razorpay_payment_id ?doc1 = pd_razorpay_payment_id pd1"
    "razorpay_payment_id ?doc2 = pd_razorpay_payment_id pd2"
    "payment_status ?doc2 = payment_status ?doc1"
    "remaining_amount ?doc2 = remaining_amount ?doc1"
    "advance_paid_at ?doc2 = Some (now_iso e2)"
    by (simp_all add: set_advance_paid_def)
  have "ledger ?d2 = ledger d1 @ [advance_payment_post oid ?doc1]" by simp
  with run f1 f2 fields
  show "\<exists>d2 doc1 doc2. verify_payment e2 d1 oid pd2 cu2 = (d2, Inr ps1)
           \<and> find_order d1 oid = Some doc1 \<and> find_order d2 oid = Some doc2
           \<and> razorpay_payment_id doc1 = pd_razorpay_payment_id pd1
           \<and> razorpay_payment_id doc2 = pd_razorpay_payment_id pd2
           \<and> payment_status doc2 = payment_status doc1
           \<and> remaining_amount doc2 = remaining_amount doc1
           \<and> advance_paid_at doc2 = Some (now_iso e2)
           \<and> ledger d2 = ledger d1 @ [advance_payment_post oid doc1]"
    by blast
next
  assume h: "verify_remaining_payment e1 d oid r1 cu1 = (d1', Inr s1)
      \<and> (razorpay_client e2 \<longrightarrow>
           rpv_razorpay_signature r2
             = expected_signature e2 (rpv_razorpay_order_id r2) (rpv_razorpay_payment_id r2))"
  then obtain doc where doc: "find_order d oid = Some doc"
    and d1: "d1' = d\<lparr> orders := update_one oid (set_remaining_paid e1 r1) (orders d) \<rparr>"
    by (blast elim: verify_remaining_success)
  let ?doc1 = "set_remaining_paid e1 r1 doc"
  have f1: "find_order d1' oid = Some ?doc1"
    unfolding d1 by (simp add: find_order_updated_orders order_id_set_remaining_paid doc)
  let ?d2 = "d1'\<lparr> orders := update_one oid (set_remaining_paid e2 r2) (orders d1') \<rparr>"
  let ?doc2 = "set_remaining_paid e2 r2 ?doc1"
  have run: "verify_remaining_payment e2 d1' oid r2 cu2 = (?d2, Inr ''completed'')"
    using h f1 by (auto simp: verify_remaining_payment_def)
  have f2: "find_order ?d2 oid = Some ?doc2"
    by (simp add: find_order_updated_orders order_id_set_remaining_paid f1)
  have fields: "remaining_razorpay_payment_id ?doc1 = Some (rpv_razorpay_payment_id r1)"
    "remaining_razorpay_payment_id ?doc2 = Some (rpv_razorpay_payment_id r2)"
    "payment_status ?doc2 = ''completed''" "remaining_amount ?doc2 = 0"
    "remaining_paid_at ?doc2 = Some (now_iso e2)"
    by (simp_all add: set_remaining_paid_def)
  from run f1 f2 fields
  show "\<exists>d2 doc1 doc2. verify_remaining_payment e2 d1' oid r2 cu2 = (d2, Inr ''completed'')
           \<and> find_order d1' oid = Some doc1 \<and> find_order d2 oid = Some doc2
           \<and> remaining_razorpay_payment_id doc1 = Some (rpv_razorpay_payment_id r1)
           \<and> remaining_razorpay_payment_id doc2 = Some (rpv_razorpay_payment_id r2)
           \<and> payment_status doc2 = ''completed'' \<and> remaining_amount doc2 = 0
           \<and> remaining_paid_at doc2 = Some (now_iso e2)"
    by blast
qed

text \<open>
  The worked order: \<open>pay_A\<close> is verified, then \<open>pay_B\<close>; on the remaining leg \<open>pay_R\<close>,
  then \<open>pay_S\<close>.
\<close>

theorem C2_second_verification_reapplies_witness:
  "verify_payment ex_env ex_db1 ''uuid-1'' ex_callback ex_user = (ex_db2, Inr ''partial'')
   \<and> pd_razorpay_signature ex_callback_other
       = Some (expected_signature ex_env (fmt (pd_razorpay_order_id ex_callback_other))
                 (fmt (pd_razorpay_payment_id ex_callback_other)))
   \<and> (\<exists>d2 doc1 doc2.
         verify_payment ex_env ex_db2 ''uuid-1'' ex_callback_other ex_user = (d2, Inr ''partial'')
         \<and> find_order ex_db2 ''uuid-1'' = Some doc1 \<and> find_order d2 ''uuid-1'' = Some doc2
         \<and> razorpay_payment_id doc1 = pd_razorpay_payment_id ex_callback
         \<and> razorpay_payment_id doc2 = pd_razorpay_payment_id ex_callback_other
         \<and> payment_status doc2 = payment_status doc1
         \<and> remaining_amount doc2 = remaining_amount doc1
         \<and> advance_paid_at doc2 = Some (now_iso ex_env)
         \<and> ledger d2 = ledger ex_db2 @ [advance_payment_post ''uuid-1'' doc1])
   \<and> verify_remaining_payment ex_env ex_db2 ''uuid-1'' ex_remaining ex_user
       = (ex_db_settled, Inr ''completed'')
   \<and> rpv_razorpay_signature ex_remaining_again
       = expected_signature ex_env (rpv_razorpay_order_id ex_remaining_again)
           (rpv_razorpay_payment_id ex_remaining_again)
   \<and> (\<exists>d2 doc1 doc2.
         verify_remaining_payment ex_env ex_db_settled ''uuid-1'' ex_remaining_again ex_user
           = (d2, Inr ''completed'')
         \<and> find_order ex_db_settled ''uuid-1'' = Some doc1 \<and> find_order d2 ''uuid-1'' = Some doc2
         \<and> remaining_razorpay_payment_id doc1 = Some (rpv_razorpay_payment_id ex_remaining)
         \<and> remaining_razorpay_payment_id doc2 = Some (rpv_razorpay_payment_id ex_remaining_again)
         \<and> payment_status doc2 = ''completed'' \<and> remaining_amount doc2 = 0
         \<and> remaining_paid_at doc2 = Some (now_iso ex_env))"
proof -
  have sig: "pd_razorpay_signature ex_callback_other
       = Some (expected_signature ex_env (fmt (pd_razorpay_order_id ex_callback_other))
                 (fmt (pd_razorpay_payment_id ex_callback_other)))"
    by (simp add: ex_callback_other_def expected_signature_def ex_env_simps)
  have rsig: "rpv_razorpay_signature ex_remaining_again
       = expected_signature ex_env (rpv_razorpay_order_id ex_remaining_again)
           (rpv_razorpay_payment_id ex_remaining_again)"
    by (simp add: ex_remaining_again_def expected_signature_def ex_env_simps)
  from C2_second_verification_reapplies
    [where ?e1.0 = ex_env and ?e2.0 = ex_env and d = ex_db1 and oid = "''uuid-1''"
       and ?pd1.0 = ex_callback and ?cu1.0 = ex_user and ?d1.0 = ex_db2 and ?ps1.0 = "''partial''"
       and ?pd2.0 = ex_callback_other and ?cu2.0 = ex_user
       and ?r1.0 = ex_remaining and d1' = ex_db_settled and ?s1.0 = "''completed''"
       and ?r2.0 = ex_remaining_again]
    ex_verify sig rsig
  have one: "\<exists>d2 doc1 doc2.
         verify_payment ex_env ex_db2 ''uuid-1'' ex_callback_other ex_user = (d2, Inr ''partial'')
         \<and> find_order ex_db2 ''uuid-1'' = Some doc1 \<and> find_order d2 ''uuid-1'' = Some doc2
         \<and> razorpay_payment_id doc1 = pd_razorpay_payment_id ex_callback
         \<and> razorpay_payment_id doc2 = pd_razorpay_payment_id ex_callback_other
         \<and> payment_status doc2 = payment_status doc1
         \<and> remaining_amount doc2 = remaining_amount doc1
         \<and> advance_paid_at doc2 = Some (now_iso ex_env)
         \<and> ledger d2 = ledger ex_db2 @ [advance_payment_post ''uuid-1'' doc1]"
    by blast
  from C2_second_verification_reapplies
    [where ?e1.0 = ex_env and ?e2.0 = ex_env and d = ex_db2 and oid = "''uuid-1''"
       and ?cu2.0 = ex_user and ?cu1.0 = ex_user
       and ?r1.0 = ex_remaining and d1' = ex_db_settled and ?s1.0 = "''completed''"
       and ?r2.0 = ex_remaining_again]
    ex_verify_remaining rsig
  have two: "\<exists>d2 doc1 doc2.
         verify_remaining_payment ex_env ex_db_settled ''uuid-1'' ex_remaining_again ex_user
           = (d2, Inr ''completed'')
         \<and> find_order ex_db_settled ''uuid-1'' = Some doc1 \<and> find_order d2 ''uuid-1'' = Some doc2
         \<and> remaining_razorpay_payment_id doc1 = Some (rpv_razorpay_payment_id ex_remaining)
         \<and> remaining_razorpay_payment_id doc2 = Some (rpv_razorpay_payment_id ex_remaining_again)
         \<and> payment_status doc2 = ''completed'' \<and> remaining_amount doc2 = 0
         \<and> remaining_paid_at doc2 = Some (now_iso ex_env)"
    by blast
  from ex_verify sig one ex_verify_remaining rsig two show ?thesis by blast
qed

text \<open>
  The claim as stated fails: the order of \<open>ex_db2\<close> has \<open>pay_A\<close> recorded for its advance
  leg; the second call records \<open>pay_B\<close> over it and posts the advance a second time.
\<close>

theorem C2_counterexample:
  "find_order ex_db2 ''uuid-1'' = Some ex_order_A
   \<and> razorpay_payment_id ex_order_A = Some ''pay_A''
   \<and> verify_payment ex_env ex_db2 ''uuid-1'' ex_callback_other ex_user = (ex_db3, Inr ''partial'')
   \<and> find_order ex_db3 ''uuid-1'' = Some ex_order_B
   \<and> razorpay_payment_id ex_order_B = Some ''pay_B''
   \<and> ledger ex_db3 = ledger ex_db2 @ [ex_advance_post]"
  using ex_find2 ex_verify_other ex_find3
  by (simp add: ex_order_A_def ex_order_B_def ex_db3_def ex_db2_def)






text \<open>
  C5, as the code has it. \<open>validate_advance_percent\<close> accepts exactly when either the
  role is admin-tier with overrides allowed and the percentage lies in \<open>[0, 100]\<close>, or
  the role is not so privileged and the percentage is at least the minimum of the
  customer class and among its allowed options. A privileged caller outside \<open>[0, 100]\<close>
  is rejected as an invalid percentage, whatever the options say; the other rejections
  are below-minimum first and not-an-allowed-value second. Where all allowed options of
  the class lie in \<open>[0, 100]\<close>, as the default ones do, acceptance is as the claim words
  it.
\<close>

theorem C5_advance_policy:
  "(fst (validate_advance_percent d t p c r) \<longleftrightarrow>
      (privileged_override d r \<and> 0 \<le> p \<and> p \<le> 100)
      \<or> (\<not> privileged_override d r \<and> class_min d c \<le> p \<and> p \<in> set (class_options d c)))
   \<and> snd (validate_advance_percent d t p c r) =
       (if fst (validate_advance_percent d t p c r) then None
        else if privileged_override d r then Some (Invalid_advance_percentage p)
        else if p < class_min d c then Some (Minimum_advance_required (class_min d c))
        else Some (Advance_must_be_one_of (class_options d c)))
   \<and> (set (class_options d c) \<subseteq> {0..100} \<longrightarrow>
       (fst (validate_advance_percent d t p c r) \<longleftrightarrow>
          (privileged_override d r \<and> 0 \<le> p \<and> p \<le> 100)
          \<or> (class_min d c \<le> p \<and> p \<in> set (class_options d c))))"
proof (intro conjI impI)
  show "fst (validate_advance_percent d t p c r) \<longleftrightarrow>
      (privileged_override d r \<and> 0 \<le> p \<and> p \<le> 100)
      \<or> (\<not> privileged_override d r \<and> class_min d c \<le> p \<and> p \<in> set (class_options d c))"
    by (rule validate_accepts_iff)
  show "snd (validate_advance_percent d t p c r) =
       (if fst (validate_advance_percent d t p c r) then None
        else if privileged_override d r then Some (Invalid_advance_percentage p)
        else if p < class_min d c then Some (Minimum_advance_required (class_min d c))
        else Some (Advance_must_be_one_of (class_options d c)))"
    by (rule validate_reason)
  assume "set (class_options d c) \<subseteq> {0..100}"
  then have "p \<in> set (class_options d c) \<Longrightarrow> 0 \<le> p \<and> p \<le> 100"
    by auto
  then show "fst (validate_advance_percent d t p c r) \<longleftrightarrow>
          (privileged_override d r \<and> 0 \<le> p \<and> p \<le> 100)
          \<or> (class_min d c \<le> p \<and> p \<in> set (class_options d c))"
    unfolding validate_accepts_iff by blast
qed

text \<open>
  Default settings: a normal customer is accepted at 50 and told the minimum at 25; an
  admin is accepted at 25.
\<close>

theorem C5_advance_policy_witness:
  "set (class_options ex_db0 False) \<subseteq> {0..100}
   \<and> validate_advance_percent ex_db0 11800 50 False ''customer'' = (True, None)
   \<and> validate_advance_percent ex_db0 11800 25 False ''customer''
       = (False, Some (Minimum_advance_required 50))
   \<and> validate_advance_percent ex_db0 11800 25 False ''admin'' = (True, None)"
proof -
  have opts: "class_options ex_db0 False = [50, 75, 100]" and m: "class_min ex_db0 False = 50"
    and po: "privileged_override ex_db0 ''admin''" "\<not> privileged_override ex_db0 ''customer''"
    by (simp_all add: class_options_def class_min_def privileged_override_def
        get_advance_settings_def ex_db0_simps default_settings_def get_or_def)
  have sub: "set (class_options ex_db0 False) \<subseteq> {0..100}"
    by (simp add: opts)
  have a: "validate_advance_percent ex_db0 11800 50 False ''customer'' = (True, None)"
    using C5_advance_policy [of ex_db0 11800 50 False "''customer''"] sub opts m po
    by (simp add: prod_eq_iff)
  have b: "validate_advance_percent ex_db0 11800 25 False ''customer''
       = (False, Some (Minimum_advance_required 50))"
    using C5_advance_policy [of ex_db0 11800 25 False "''customer''"] sub opts m po
    by (simp add: prod_eq_iff)
  have c: "validate_advance_percent ex_db0 11800 25 False ''admin'' = (True, None)"
    using C5_advance_policy [of ex_db0 11800 25 False "''admin''"] sub opts m po
    by (simp add: prod_eq_iff)
  from sub a b c show ?thesis by blast
qed

text \<open>
  The claim as stated fails twice. Under the default settings an admin asking for 101 is
  rejected for a reason that is neither below-minimum nor not-an-allowed-value. Under
  settings that allow 150 to normal customers, an admin asking for 150 is rejected
  although 150 is at least the minimum and among the allowed options.
\<close>

theorem C5_counterexample:
  "validate_advance_percent ex_db0 11800 101 False ''admin''
     = (False, Some (Invalid_advance_percentage 101))
   \<and> class_min ex_db_wide False \<le> 150
   \<and> 150 \<in> set (class_options ex_db_wide False)
   \<and> validate_advance_percent ex_db_wide 11800 150 False ''admin''
       = (False, Some (Invalid_advance_percentage 150))"
  by (simp add: validate_advance_percent_def class_min_def class_options_def
      get_advance_settings_def ex_db0_simps default_settings_def get_or_def ex_db_wide_def)







text \<open>
  C8, as the code has it. With \<open>k\<close> existing orders whose number starts with the day's
  prefix, \<open>generate_order_number\<close> returns \<open>LG\<close>, the date as \<open>YYMMDD\<close> and the decimal
  numeral of \<open>k + 1\<close> padded with zeros to at least four digits: exactly four while
  \<open>k + 1 \<le> 9999\<close>. On one day, different counts give different numbers, and a smaller
  count gives the lexicographically smaller number as long as the larger sequence number
  has at most four digits. Where the day's stored orders carry the numbers of the counts
  \<open>0, 1, \<dots>, k - 1\<close>, the generated number is borne by no stored order, and
  \<open>create_order\<close> keeps the stored orders numbered that way.
\<close>

theorem C8_order_numbers:
  "generate_order_number e d
     = ''LG'' @ strftime_yymmdd (today_yymmdd e)
         @ zfill 4 (str_nat (count_documents (order_prefix e) (orders d) + 1))
   \<and> decimal_value (zfill 4 (str_nat (count_documents (order_prefix e) (orders d) + 1)))
       = count_documents (order_prefix e) (orders d) + 1
   \<and> (count_documents (order_prefix e) (orders d) + 1 \<le> 9999
      \<longrightarrow> length (zfill 4 (str_nat (count_documents (order_prefix e) (orders d) + 1))) = 4)
   \<and> (fst (snd (today_yymmdd e)) < 100 \<and> snd (snd (today_yymmdd e)) < 100
      \<longrightarrow> length (strftime_yymmdd (today_yymmdd e)) = 6)
   \<and> (order_prefix e' = order_prefix e
        \<and> count_documents (order_prefix e) (orders d) \<noteq> count_documents (order_prefix e') (orders d')
      \<longrightarrow> generate_order_number e d \<noteq> generate_order_number e' d')
   \<and> (order_prefix e' = order_prefix e
        \<and> count_documents (order_prefix e) (orders d) < count_documents (order_prefix e') (orders d')
        \<and> count_documents (order_prefix e') (orders d') + 1 \<le> 9999
      \<longrightarrow> generate_order_number e d < generate_order_number e' d')
   \<and> (numbered_in_sequence (order_prefix e) (orders d)
      \<longrightarrow> generate_order_number e d \<notin> order_number ` set (orders d))
   \<and> (numbered_in_sequence (order_prefix e) (orders d) \<and> create_order e d od cu = (d1, Inr doc)
      \<longrightarrow> order_number doc = generate_order_number e d
          \<and> numbered_in_sequence (order_prefix e) (orders d1))"
proof (intro conjI impI)
  show "generate_order_number e d
     = ''LG'' @ strftime_yymmdd (today_yymmdd e)
         @ zfill 4 (str_nat (count_documents (order_prefix e) (orders d) + 1))"
    by (simp add: generate_order_number_eq order_prefix_def)
  show "decimal_value (zfill 4 (str_nat (count_documents (order_prefix e) (orders d) + 1)))
       = count_documents (order_prefix e) (orders d) + 1"
    by (rule decimal_value_zfill)
  show "length (zfill 4 (str_nat (count_documents (order_prefix e) (orders d) + 1))) = 4"
    if "count_documents (order_prefix e) (orders d) + 1 \<le> 9999"
    using that by (intro length_zfill4) simp
  show "length (strftime_yymmdd (today_yymmdd e)) = 6"
    if "fst (snd (today_yymmdd e)) < 100 \<and> snd (snd (today_yymmdd e)) < 100"
    using that length_order_prefix [of e] by (simp add: order_prefix_def)
  show "generate_order_number e d \<noteq> generate_order_number e' d'"
    if "order_prefix e' = order_prefix e
        \<and> count_documents (order_prefix e) (orders d) \<noteq> count_documents (order_prefix e') (orders d')"
  proof
    assume "generate_order_number e d = generate_order_number e' d'"
    then have "order_prefix e @ zfill 4 (str_nat (count_documents (order_prefix e) (orders d) + 1))
        = order_prefix e @ zfill 4 (str_nat (count_documents (order_prefix e') (orders d') + 1))"
      using that by (simp add: generate_order_number_eq)
    then have "count_documents (order_prefix e) (orders d) + 1
        = count_documents (order_prefix e') (orders d') + 1"
      by (rule number_inj)
    with that show False by simp
  qed
  show "generate_order_number e d < generate_order_number e' d'"
    if "order_prefix e' = order_prefix e
        \<and> count_documents (order_prefix e) (orders d) < count_documents (order_prefix e') (orders d')
        \<and> count_documents (order_prefix e') (orders d') + 1 \<le> 9999"
  proof -
    from that have p: "order_prefix e' = order_prefix e"
      and lt: "count_documents (order_prefix e) (orders d) + 1
                 < count_documents (order_prefix e') (orders d') + 1"
      and bound: "count_documents (order_prefix e') (orders d') + 1 < 10000"
      by auto
    from lt bound
    have "zfill 4 (str_nat (count_documents (order_prefix e) (orders d) + 1))
        < zfill 4 (str_nat (count_documents (order_prefix e') (orders d') + 1))"
      by (rule zfill4_less)
    then show ?thesis
      unfolding generate_order_number_eq p by (simp only: append_less_same)
  qed
  show "generate_order_number e d \<notin> order_number ` set (orders d)"
    if "numbered_in_sequence (order_prefix e) (orders d)"
    using number_fresh [OF that] by (simp add: generate_order_number_eq)
  assume h: "numbered_in_sequence (order_prefix e) (orders d) \<and> create_order e d od cu = (d1, Inr doc)"
  then obtain c p where doc: "doc = new_order e d od cu c p"
    and d1: "d1 = d\<lparr> orders := orders d @ [doc],
                      ledger := ledger d @ [sales_invoice_post od doc] \<rparr>"
    by (blast elim: create_order_success)
  show num: "order_number doc = generate_order_number e d"
    by (simp add: doc new_order_number)
  from h have "numbered_in_sequence (order_prefix e) (orders d @ [doc])"
    by (intro number_sequence_extended) (simp_all add: num generate_order_number_eq)
  then show "numbered_in_sequence (order_prefix e) (orders d1)"
    by (simp add: d1)
qed

text \<open>The first two orders of 3 November 2026.\<close>

theorem C8_order_numbers_witness:
  "generate_order_number ex_env ex_db0 = ''LG2611030001''
   \<and> generate_order_number ex_env ex_db1 = ''LG2611030002''
   \<and> count_documents (order_prefix ex_env) (orders ex_db0) = 0
   \<and> count_documents (order_prefix ex_env) (orders ex_db1) = 1
   \<and> generate_order_number ex_env ex_db0 \<noteq> generate_order_number ex_env ex_db1
   \<and> generate_order_number ex_env ex_db0 < generate_order_number ex_env ex_db1
   \<and> numbered_in_sequence (order_prefix ex_env) (orders ex_db0)
   \<and> generate_order_number ex_env ex_db0 \<notin> order_number ` set (orders ex_db0)
   \<and> create_order ex_env ex_db0 ex_req ex_user = (ex_db1, Inr ex_order)
   \<and> order_number ex_order = generate_order_number ex_env ex_db0
   \<and> numbered_in_sequence (order_prefix ex_env) (orders ex_db1)"
proof -
  have c0: "count_documents (order_prefix ex_env) (orders ex_db0) = 0"
    by (simp add: count_documents_def ex_db0_simps)
  have c1: "count_documents (order_prefix ex_env) (orders ex_db1) = 1"
    by (simp add: count_documents_def ex_orders ex_prefix matches_prefix_def ex_order_def)
  have s0: "numbered_in_sequence (order_prefix ex_env) (orders ex_db0)"
    by (simp add: numbered_in_sequence_def count_documents_def ex_db0_simps)
  note inst = C8_order_numbers
    [where e = ex_env and e' = ex_env and d = ex_db0 and d' = ex_db1 and od = ex_req
       and cu = ex_user and ?d1.0 = ex_db1 and doc = ex_order]
  have h1: "order_prefix ex_env = order_prefix ex_env
      \<and> count_documents (order_prefix ex_env) (orders ex_db0)
          \<noteq> count_documents (order_prefix ex_env) (orders ex_db1)"
    and h2: "order_prefix ex_env = order_prefix ex_env
      \<and> count_documents (order_prefix ex_env) (orders ex_db0)
          < count_documents (order_prefix ex_env) (orders ex_db1)
      \<and> count_documents (order_prefix ex_env) (orders ex_db1) + 1 \<le> 9999"
    by (simp_all add: c0 c1)
  have "generate_order_number ex_env ex_db0 \<noteq> generate_order_number ex_env ex_db1"
    "generate_order_number ex_env ex_db0 < generate_order_number ex_env ex_db1"
    "generate_order_number ex_env ex_db0 \<notin> order_number ` set (orders ex_db0)"
    "order_number ex_order = generate_order_number ex_env ex_db0"
    "numbered_in_sequence (order_prefix ex_env) (orders ex_db1)"
    using inst h1 h2 s0 ex_create by blast+
  with ex_number ex_numbers c0 c1 s0 ex_create show ?thesis by blast
qed

text \<open>
  The claim as stated fails on the 10000th order of a day. The day's 9999 orders are
  numbered in sequence and the last of them is \<open>LG2611039999\<close>; the next number has five
  digits and sorts before it.
\<close>

theorem C8_counterexample:
  "order_prefix ex_env = ''LG261103''
   \<and> numbered_in_sequence (order_prefix ex_env) (orders ex_db_full)
   \<and> count_documents (order_prefix ex_env) (orders ex_db_full) = 9999
   \<and> order_number (last (orders ex_db_full)) = ''LG2611039999''
   \<and> generate_order_number ex_env ex_db_full = ''LG26110310000''
   \<and> generate_order_number ex_env ex_db_full < order_number (last (orders ex_db_full))"
  using ex_full_sequence
  by (simp add: ex_prefix ex_full_count ex_full_last ex_full_next)

end
